theory Spec2Isabelle
  imports Main
begin

section \<open>JavaScript values and strings\<close>

text \<open>
  The client of \<^verbatim>\<open>scripts/freshdesk-api.js\<close> handles four kinds of JavaScript
  values in the places modelled here: \<^verbatim>\<open>undefined\<close> (a property never assigned),
  \<^verbatim>\<open>null\<close> (what \<^verbatim>\<open>Headers.get\<close> answers for an absent header), numbers (HTTP
  status codes and Freshdesk ids, which are integers) and strings. Strings are modelled
  as their UTF-8 bytes.
\<close>

datatype jsval = JUndefined | JNull | JNum int | JStr string

text \<open>Decimal rendering of an integer, as a template literal renders an integral number.\<close>

fun show_nat :: "nat \<Rightarrow> string" where
  "show_nat n =
     (if n < 10 then [char_of (48 + n)]
      else show_nat (n div 10) @ [char_of (48 + n mod 10)])"

declare show_nat.simps [simp del]

definition show_int :: "int \<Rightarrow> string" where
  "show_int i = (if i < 0 then CHR ''-'' # show_nat (nat (- i)) else show_nat (nat i))"

text \<open>The conversion a template literal \<^verbatim>\<open>`${v}`\<close> applies to \<^verbatim>\<open>v\<close>.\<close>

fun to_string :: "jsval \<Rightarrow> string" where
  "to_string JUndefined = ''undefined''"
| "to_string JNull = ''null''"
| "to_string (JNum n) = show_int n"
| "to_string (JStr s) = s"

text \<open>\<^verbatim>\<open>s.startsWith(p)\<close>.\<close>

definition startsWith :: "string \<Rightarrow> string \<Rightarrow> bool" where
  "startsWith s p = (take (length p) s = p)"

text \<open>
  \<^verbatim>\<open>Buffer.from(s).toString('base64')\<close>: the standard base64 alphabet with \<^verbatim>\<open>=\<close>
  padding, over the UTF-8 bytes of \<^verbatim>\<open>s\<close>. This is Node's library, not code of the
  repository; it is written out so that the constructor can be evaluated.
\<close>

definition b64_alphabet :: string where
  "b64_alphabet = ''ABCDEFGHIJKLMNOPQRSTUVWXYZabcdefghijklmnopqrstuvwxyz0123456789+/''"

definition b64_char :: "nat \<Rightarrow> char" where
  "b64_char n = b64_alphabet ! (n mod 64)"

fun base64 :: "string \<Rightarrow> string" where
  "base64 [] = []"
| "base64 [a] =
     (let n = of_char a * 65536
      in [b64_char (n div 262144), b64_char (n div 4096), CHR ''='', CHR ''=''])"
| "base64 [a, b] =
     (let n = of_char a * 65536 + of_char b * 256
      in [b64_char (n div 262144), b64_char (n div 4096), b64_char (n div 64), CHR ''=''])"
| "base64 (a # b # c # rest) =
     (let n = of_char a * 65536 + of_char b * 256 + of_char c
      in [b64_char (n div 262144), b64_char (n div 4096), b64_char (n div 64), b64_char n]
         @ base64 rest)"

section \<open>Errors, responses and requests\<close>

text \<open>
  The \<^verbatim>\<open>ScratchFreshdeskError\<close> of the source is a plain \<^verbatim>\<open>Error\<close> object on which
  \<^verbatim>\<open>code\<close> and \<^verbatim>\<open>retryAfter\<close> may be assigned. A property never assigned reads as
  \<^verbatim>\<open>undefined\<close>. Errors raised by the transport are values of the same type.
\<close>

record error =
  message :: string
  code :: jsval
  retryAfter :: jsval

text \<open>\<^verbatim>\<open>new Error(msg)\<close>.\<close>

definition new_Error :: "string \<Rightarrow> error" where
  "new_Error msg = \<lparr>message = msg, code = JUndefined, retryAfter = JUndefined\<rparr>"

text \<open>
  A \<^verbatim>\<open>fetch.Response\<close> as far as the client reads it. The headers are a finite map
  keyed by lower-case header names; \<open>json\<close> is what \<^verbatim>\<open>res.json()\<close> settles to (the
  parsed body of type \<open>'j\<close>, or the parse error).
\<close>

record 'j response =
  status :: int
  statusText :: string
  headers :: "string \<rightharpoonup> string"
  json :: "error + 'j"

text \<open>The library's \<^verbatim>\<open>Response.ok\<close> getter: the status is in the range 200 to 299.\<close>

definition ok :: "'j response \<Rightarrow> bool" where
  "ok res = (200 \<le> status res \<and> status res \<le> 299)"

definition to_lower :: "char \<Rightarrow> char" where
  "to_lower c =
     (let n = (of_char c :: nat) in if 65 \<le> n \<and> n \<le> 90 then char_of (n + 32) else c)"

text \<open>
  The library's \<^verbatim>\<open>Headers.get(name)\<close>: header names are matched without regard to
  case, and an absent header is \<^verbatim>\<open>null\<close> (here \<open>None\<close>).
\<close>

definition headers_get :: "(string \<rightharpoonup> string) \<Rightarrow> string \<Rightarrow> string option" where
  "headers_get h name = h (map to_lower name)"

fun nullable :: "string option \<Rightarrow> jsval" where
  "nullable None = JNull"
| "nullable (Some s) = JStr s"

text \<open>
  \<^verbatim>\<open>checkStatus (res)\<close>: \<open>Inr res\<close> is the normal return, \<open>Inl err\<close> is \<^verbatim>\<open>throw err\<close>.
  The optional chaining \<^verbatim>\<open>get('content-type')?.startsWith(...)\<close> is falsy when the
  header is absent.
\<close>

definition checkStatus :: "'j response \<Rightarrow> error + 'j response" where
  "checkStatus res =
     (if ok res then
        (if (case headers_get (headers res) ''content-type'' of
               None \<Rightarrow> False
             | Some ct \<Rightarrow> startsWith ct ''application/json'')
         then Inr res
         else Inl (new_Error (''response not json: ''
                    @ to_string (nullable (headers_get (headers res) ''content-type'')))))
      else
        (let err = new_Error (''response '' @ statusText res);
             err = err\<lparr>code := JNum (status res)\<rparr>;
             err = (if status res = 429
                    then err\<lparr>retryAfter := nullable (headers_get (headers res) ''Retry-After'')\<rparr>
                    else err)
         in Inl err))"

text \<open>
  A request as handed to \<^verbatim>\<open>fetch(url, init)\<close>. An \<^verbatim>\<open>init\<close> with only \<^verbatim>\<open>headers\<close>
  is a GET without body.
\<close>

datatype http_method = GET | PUT | POST

record request =
  req_url :: string
  req_method :: http_method
  req_body :: "string option"
  req_headers :: "(string \<times> string) list"

section \<open>The world outside the client\<close>

text \<open>
  The remote service and the transport are the environment: \<open>network\<close> answers the
  whole history of requests sent so far, the last one being the request to answer, either
  with a response or with the error \<^verbatim>\<open>fetch\<close> rejects with. \<open>sent\<close> logs every
  request issued and \<open>stdout\<close> every chunk written to \<^verbatim>\<open>process.stdout\<close>.
  The methods as defined below carry a call to its settlement; calls that overlap are
  treated further on.
\<close>

record 'j world =
  network :: "request list \<Rightarrow> error + 'j response"
  sent :: "request list"
  stdout :: "string list"

definition fetch :: "request \<Rightarrow> 'j world \<Rightarrow> (error + 'j response) \<times> 'j world" where
  "fetch req w = (network w (sent w @ [req]), w\<lparr>sent := sent w @ [req]\<rparr>)"

definition stdout_write :: "string \<Rightarrow> 'j world \<Rightarrow> 'j world" where
  "stdout_write s w = w\<lparr>stdout := stdout w @ [s]\<rparr>"

text \<open>\<^verbatim>\<open>p.then(f)\<close> on a settled promise: a rejection passes by \<open>f\<close>.\<close>

fun promise_then :: "error + 'a \<Rightarrow> ('a \<Rightarrow> error + 'b) \<Rightarrow> error + 'b" where
  "promise_then (Inl e) f = Inl e"
| "promise_then (Inr x) f = f x"


section \<open>The class \<^verbatim>\<open>FreshdeskApi\<close>\<close>

text \<open>
  The instance: \<open>auth\<close> is the field \<^verbatim>\<open>_auth\<close>, \<open>defaultHeaders\<close> the object
  literal as the list of its entries.
\<close>

record FreshdeskApi =
  baseUrl :: string
  auth :: string
  defaultHeaders :: "(string \<times> string) list"
  rateLimited :: bool

text \<open>
  \<^verbatim>\<open>constructor (baseUrl, apiKey)\<close>. Its body calls neither \<^verbatim>\<open>fetch\<close> nor
  \<^verbatim>\<open>process.stdout.write\<close>, so the world comes back as it was.
\<close>

definition constructor :: "string \<Rightarrow> string \<Rightarrow> 'j world \<Rightarrow> FreshdeskApi \<times> 'j world" where
  "constructor baseUrl' apiKey w =
     (let auth' = ''Basic '' @ base64 (apiKey @ '':X'')
      in (\<lparr>baseUrl = baseUrl',
           auth = auth',
           defaultHeaders = [(''Content-Type'', ''application/json''), (''Authorization'', auth')],
           rateLimited = False\<rparr>, w))"

text \<open>
  What a method hands back to its caller: a plain number (the \<^verbatim>\<open>-1\<close> of the
  upsert methods) or a promise, given by what it settles to (\<open>Inr\<close> the value it resolves
  to, \<open>Inl\<close> the error it rejects with). Every method also returns the instance and the
  world as it leaves them.
\<close>

datatype 'j returned = Number int | Promise "error + 'j"

text \<open>Of the category and the folder passed to the list methods only \<^verbatim>\<open>id\<close> is read.\<close>

record FreshdeskCategory =
  category_id :: jsval

record FreshdeskFolder =
  folder_id :: jsval

definition listCategories ::
  "FreshdeskApi \<Rightarrow> 'j world \<Rightarrow> 'j returned \<times> FreshdeskApi \<times> 'j world" where
  "listCategories this w =
     (let (res, w1) = fetch \<lparr>req_url = baseUrl this @ ''/api/v2/solutions/categories'',
                              req_method = GET,
                              req_body = None,
                              req_headers = defaultHeaders this\<rparr> w
      in (Promise (promise_then (promise_then res checkStatus) json), this, w1))"

definition listFolders ::
  "FreshdeskApi \<Rightarrow> FreshdeskCategory \<Rightarrow> 'j world \<Rightarrow> 'j returned \<times> FreshdeskApi \<times> 'j world" where
  "listFolders this category w =
     (let (res, w1) = fetch \<lparr>req_url = baseUrl this @ ''/api/v2/solutions/categories/''
                                @ to_string (category_id category) @ ''/folders'',
                              req_method = GET,
                              req_body = None,
                              req_headers = defaultHeaders this\<rparr> w
      in (Promise (promise_then (promise_then res checkStatus) json), this, w1))"

definition listArticles ::
  "FreshdeskApi \<Rightarrow> FreshdeskFolder \<Rightarrow> 'j world \<Rightarrow> 'j returned \<times> FreshdeskApi \<times> 'j world" where
  "listArticles this folder w =
     (let (res, w1) = fetch \<lparr>req_url = baseUrl this @ ''/api/v2/solutions/folders/''
                                @ to_string (folder_id folder) @ ''/articles'',
                              req_method = GET,
                              req_body = None,
                              req_headers = defaultHeaders this\<rparr> w
      in (Promise (promise_then (promise_then res checkStatus) json), this, w1))"

text \<open>
  The three upsert methods take \<^verbatim>\<open>JSON.stringify\<close>, the host's encoder of the body,
  as their first argument. \<open>ident\<close> is the parameter \<^verbatim>\<open>id\<close> and \<open>lang\<close> the parameter
  \<^verbatim>\<open>locale\<close>.
\<close>

text \<open>
  \<^verbatim>\<open>updateCategoryTranslation (id, locale, body)\<close> (lines 147 to 180). The handler of
  \<^verbatim>\<open>.catch\<close> is attached to the chain of the PUT only; the promise it returns in
  the 404 branch is the chain of the POST, as it settles.
\<close>

definition updateCategoryTranslation ::
  "('b \<Rightarrow> string) \<Rightarrow> FreshdeskApi \<Rightarrow> jsval \<Rightarrow> string \<Rightarrow> 'b \<Rightarrow> 'j world
     \<Rightarrow> 'j returned \<times> FreshdeskApi \<times> 'j world" where
  "updateCategoryTranslation JSON_stringify this ident lang body w =
     (if rateLimited this then
        (Number (- 1), this,
         stdout_write (''Rate limited, skipping id: '' @ to_string ident @ '' for '' @ lang
                        @ [CHR 0x0A]) w)
      else
        (let (res, w1) = fetch \<lparr>req_url = baseUrl this @ ''/api/v2/solutions/categories/''
                                   @ to_string ident @ ''/'' @ lang,
                                 req_method = PUT,
                                 req_body = Some (JSON_stringify body),
                                 req_headers = defaultHeaders this\<rparr> w
         in case promise_then (promise_then res checkStatus) json of
              Inr j \<Rightarrow> (Promise (Inr j), this, w1)
            | Inl err \<Rightarrow>
                if code err = JNum 404 then
                  (let (res2, w2) = fetch \<lparr>req_url = baseUrl this @ ''/api/v2/solutions/categories/''
                                              @ to_string ident @ ''/'' @ lang,
                                            req_method = POST,
                                            req_body = Some (JSON_stringify body),
                                            req_headers = defaultHeaders this\<rparr> w1
                   in (Promise (promise_then (promise_then res2 checkStatus) json), this, w2))
                else
                  (let this1 = (if code err = JNum 429 then this\<lparr>rateLimited := True\<rparr> else this);
                       w2 = stdout_write (''Error processing id '' @ to_string ident
                              @ '' for locale '' @ lang @ '': '' @ message err @ [CHR 0x0A]) w1
                   in (Promise (Inl err), this1, w2))))"

text \<open>
  \<^verbatim>\<open>updateFolderTranslation (id, locale, body)\<close> (lines 190 to 223). The handler of
  \<^verbatim>\<open>.catch\<close> is attached to the chain of the PUT only; the promise it returns in
  the 404 branch is the chain of the POST, as it settles.
\<close>

definition updateFolderTranslation ::
  "('b \<Rightarrow> string) \<Rightarrow> FreshdeskApi \<Rightarrow> jsval \<Rightarrow> string \<Rightarrow> 'b \<Rightarrow> 'j world
     \<Rightarrow> 'j returned \<times> FreshdeskApi \<times> 'j world" where
  "updateFolderTranslation JSON_stringify this ident lang body w =
     (if rateLimited this then
        (Number (- 1), this,
         stdout_write (''Rate limited, skipping id: '' @ to_string ident @ '' for '' @ lang
                        @ [CHR 0x0A]) w)
      else
        (let (res, w1) = fetch \<lparr>req_url = baseUrl this @ ''/api/v2/solutions/folders/''
                                   @ to_string ident @ ''/'' @ lang,
                                 req_method = PUT,
                                 req_body = Some (JSON_stringify body),
                                 req_headers = defaultHeaders this\<rparr> w
         in case promise_then (promise_then res checkStatus) json of
              Inr j \<Rightarrow> (Promise (Inr j), this, w1)
            | Inl err \<Rightarrow>
                if code err = JNum 404 then
                  (let (res2, w2) = fetch \<lparr>req_url = baseUrl this @ ''/api/v2/solutions/folders/''
                                              @ to_string ident @ ''/'' @ lang,
                                            req_method = POST,
                                            req_body = Some (JSON_stringify body),
                                            req_headers = defaultHeaders this\<rparr> w1
                   in (Promise (promise_then (promise_then res2 checkStatus) json), this, w2))
                else
                  (let this1 = (if code err = JNum 429 then this\<lparr>rateLimited := True\<rparr> else this);
                       w2 = stdout_write (''Error processing id '' @ to_string ident
                              @ '' for locale '' @ lang @ '': '' @ message err @ [CHR 0x0A]) w1
                   in (Promise (Inl err), this1, w2))))"

text \<open>
  \<^verbatim>\<open>updateArticleTranslation (id, locale, body)\<close> (lines 233 to 266). The handler of
  \<^verbatim>\<open>.catch\<close> is attached to the chain of the PUT only; the promise it returns in
  the 404 branch is the chain of the POST, as it settles.
\<close>

definition updateArticleTranslation ::
  "('b \<Rightarrow> string) \<Rightarrow> FreshdeskApi \<Rightarrow> jsval \<Rightarrow> string \<Rightarrow> 'b \<Rightarrow> 'j world
     \<Rightarrow> 'j returned \<times> FreshdeskApi \<times> 'j world" where
  "updateArticleTranslation JSON_stringify this ident lang body w =
     (if rateLimited this then
        (Number (- 1), this,
         stdout_write (''Rate limited, skipping id: '' @ to_string ident @ '' for '' @ lang
                        @ [CHR 0x0A]) w)
      else
        (let (res, w1) = fetch \<lparr>req_url = baseUrl this @ ''/api/v2/solutions/articles/''
                                   @ to_string ident @ ''/'' @ lang,
                                 req_method = PUT,
                                 req_body = Some (JSON_stringify body),
                                 req_headers = defaultHeaders this\<rparr> w
         in case promise_then (promise_then res checkStatus) json of
              Inr j \<Rightarrow> (Promise (Inr j), this, w1)
            | Inl err \<Rightarrow>
                if code err = JNum 404 then
                  (let (res2, w2) = fetch \<lparr>req_url = baseUrl this @ ''/api/v2/solutions/articles/''
                                              @ to_string ident @ ''/'' @ lang,
                                            req_method = POST,
                                            req_body = Some (JSON_stringify body),
                                            req_headers = defaultHeaders this\<rparr> w1
                   in (Promise (promise_then (promise_then res2 checkStatus) json), this, w2))
                else
                  (let this1 = (if code err = JNum 429 then this\<lparr>rateLimited := True\<rparr> else this);
                       w2 = stdout_write (''Error processing id '' @ to_string ident
                              @ '' for locale '' @ lang @ '': '' @ message err @ [CHR 0x0A]) w1
                   in (Promise (Inl err), this1, w2))))"


section \<open>Calls, their requests, and runs of calls\<close>

text \<open>
  The six methods of an instance, as a caller invokes them who awaits each call before
  making the next. \<open>invoke\<close> dispatches a call to its method, carried to its
  settlement, and \<open>run\<close> performs a list of such calls in order, each on the instance
  and the world the previous one left.
\<close>

datatype 'b call =
    ListCategories
  | ListFolders FreshdeskCategory
  | ListArticles FreshdeskFolder
  | UpdateCategoryTranslation jsval string 'b
  | UpdateFolderTranslation jsval string 'b
  | UpdateArticleTranslation jsval string 'b

fun invoke ::
  "('b \<Rightarrow> string) \<Rightarrow> 'b call \<Rightarrow> FreshdeskApi \<Rightarrow> 'j world
     \<Rightarrow> 'j returned \<times> FreshdeskApi \<times> 'j world" where
  "invoke S ListCategories this w = listCategories this w"
| "invoke S (ListFolders category) this w = listFolders this category w"
| "invoke S (ListArticles folder) this w = listArticles this folder w"
| "invoke S (UpdateCategoryTranslation ident lang body) this w =
     updateCategoryTranslation S this ident lang body w"
| "invoke S (UpdateFolderTranslation ident lang body) this w =
     updateFolderTranslation S this ident lang body w"
| "invoke S (UpdateArticleTranslation ident lang body) this w =
     updateArticleTranslation S this ident lang body w"

fun run ::
  "('b \<Rightarrow> string) \<Rightarrow> 'b call list \<Rightarrow> FreshdeskApi \<Rightarrow> 'j world \<Rightarrow> FreshdeskApi \<times> 'j world" where
  "run S [] this w = (this, w)"
| "run S (c # cs) this w =
     (case invoke S c this w of (r, this', w') \<Rightarrow> run S cs this' w')"

text \<open>
  The three upsert methods, each with the path segment of its entity type in the URL
  template \<^verbatim>\<open>/api/v2/solutions/{categories|folders|articles}/{id}/{locale}\<close>.
\<close>

definition upsert_operations ::
  "('b \<Rightarrow> string)
     \<Rightarrow> (string \<times> (FreshdeskApi \<Rightarrow> jsval \<Rightarrow> string \<Rightarrow> 'b \<Rightarrow> 'j world
                    \<Rightarrow> 'j returned \<times> FreshdeskApi \<times> 'j world)) list" where
  "upsert_operations S =
     [(''categories'', updateCategoryTranslation S),
      (''folders'', updateFolderTranslation S),
      (''articles'', updateArticleTranslation S)]"

text \<open>
  The request the specification describes for an upsert of entity type \<open>seg\<close> with
  method \<open>m\<close>: the template URL, the JSON-encoded body and the default headers.
\<close>

definition translation_request ::
  "('b \<Rightarrow> string) \<Rightarrow> FreshdeskApi \<Rightarrow> string \<Rightarrow> http_method \<Rightarrow> jsval \<Rightarrow> string \<Rightarrow> 'b
     \<Rightarrow> request" where
  "translation_request S this seg m ident lang body =
     \<lparr>req_url = baseUrl this @ ''/api/v2/solutions/'' @ seg @ ''/'' @ to_string ident
                 @ ''/'' @ lang,
      req_method = m,
      req_body = Some (S body),
      req_headers = defaultHeaders this\<rparr>"

text \<open>The GET the specification describes for a list operation on \<open>path\<close>.\<close>

definition list_request :: "FreshdeskApi \<Rightarrow> string \<Rightarrow> request" where
  "list_request this path =
     \<lparr>req_url = baseUrl this @ path,
      req_method = GET,
      req_body = None,
      req_headers = defaultHeaders this\<rparr>"

text \<open>
  What the chain \<^verbatim>\<open>fetch(...).then(this.checkStatus).then(res => res.json())\<close> settles
  to when \<^verbatim>\<open>fetch\<close> settles to \<open>r\<close>.
\<close>

definition outcome :: "error + 'j response \<Rightarrow> error + 'j" where
  "outcome r = promise_then (promise_then r checkStatus) json"

section \<open>Calls in flight together\<close>

text \<open>
  An upsert method returns as soon as it has handed the PUT to \<^verbatim>\<open>fetch\<close>; the
  handler of \<^verbatim>\<open>.catch\<close> runs later, when the chain of the PUT has settled, on the
  instance as it is then. A caller that does not await a call before making the next one
  has several PUTs in flight, and their handlers run in the order the chains settle. The
  methods are therefore split here into the part that runs at the call and the handler.
\<close>

text \<open>
  The part of \<^verbatim>\<open>updateCategoryTranslation\<close> that runs before the method returns (lines
  148 to 158): \<open>Inl\<close> the number returned, or \<open>Inr\<close> what the \<^verbatim>\<open>fetch\<close> of the PUT
  settles to later.
\<close>

definition updateCategoryTranslation_sync ::
  "('b \<Rightarrow> string) \<Rightarrow> FreshdeskApi \<Rightarrow> jsval \<Rightarrow> string \<Rightarrow> 'b \<Rightarrow> 'j world
     \<Rightarrow> (int + (error + 'j response)) \<times> 'j world" where
  "updateCategoryTranslation_sync JSON_stringify this ident lang body w =
     (if rateLimited this then
        (Inl (- 1),
         stdout_write (''Rate limited, skipping id: '' @ to_string ident @ '' for '' @ lang
                        @ [CHR 0x0A]) w)
      else
        (let (res, w1) = fetch \<lparr>req_url = baseUrl this @ ''/api/v2/solutions/categories/''
                                   @ to_string ident @ ''/'' @ lang,
                                 req_method = PUT,
                                 req_body = Some (JSON_stringify body),
                                 req_headers = defaultHeaders this\<rparr> w
         in (Inr res, w1)))"

text \<open>
  The handler \<^verbatim>\<open>(err) => {...}\<close> passed to \<^verbatim>\<open>.catch\<close> in
  \<^verbatim>\<open>updateCategoryTranslation\<close> (lines 161 to 179), run on the instance and the world as
  they are when the chain of the PUT rejects with \<open>err\<close>.
\<close>

definition updateCategoryTranslation_catch ::
  "('b \<Rightarrow> string) \<Rightarrow> FreshdeskApi \<Rightarrow> jsval \<Rightarrow> string \<Rightarrow> 'b \<Rightarrow> error \<Rightarrow> 'j world
     \<Rightarrow> 'j returned \<times> FreshdeskApi \<times> 'j world" where
  "updateCategoryTranslation_catch JSON_stringify this ident lang body err w1 =
     (if code err = JNum 404 then
        (let (res2, w2) = fetch \<lparr>req_url = baseUrl this @ ''/api/v2/solutions/categories/''
                                    @ to_string ident @ ''/'' @ lang,
                                  req_method = POST,
                                  req_body = Some (JSON_stringify body),
                                  req_headers = defaultHeaders this\<rparr> w1
         in (Promise (promise_then (promise_then res2 checkStatus) json), this, w2))
      else
        (let this1 = (if code err = JNum 429 then this\<lparr>rateLimited := True\<rparr> else this);
             w2 = stdout_write (''Error processing id '' @ to_string ident
                    @ '' for locale '' @ lang @ '': '' @ message err @ [CHR 0x0A]) w1
         in (Promise (Inl err), this1, w2)))"

text \<open>
  The part of \<^verbatim>\<open>updateFolderTranslation\<close> that runs before the method returns (lines
  191 to 201): \<open>Inl\<close> the number returned, or \<open>Inr\<close> what the \<^verbatim>\<open>fetch\<close> of the PUT
  settles to later.
\<close>

definition updateFolderTranslation_sync ::
  "('b \<Rightarrow> string) \<Rightarrow> FreshdeskApi \<Rightarrow> jsval \<Rightarrow> string \<Rightarrow> 'b \<Rightarrow> 'j world
     \<Rightarrow> (int + (error + 'j response)) \<times> 'j world" where
  "updateFolderTranslation_sync JSON_stringify this ident lang body w =
     (if rateLimited this then
        (Inl (- 1),
         stdout_write (''Rate limited, skipping id: '' @ to_string ident @ '' for '' @ lang
                        @ [CHR 0x0A]) w)
      else
        (let (res, w1) = fetch \<lparr>req_url = baseUrl this @ ''/api/v2/solutions/folders/''
                                   @ to_string ident @ ''/'' @ lang,
                                 req_method = PUT,
                                 req_body = Some (JSON_stringify body),
                                 req_headers = defaultHeaders this\<rparr> w
         in (Inr res, w1)))"

text \<open>
  The handler \<^verbatim>\<open>(err) => {...}\<close> passed to \<^verbatim>\<open>.catch\<close> in
  \<^verbatim>\<open>updateFolderTranslation\<close> (lines 204 to 222), run on the instance and the world as
  they are when the chain of the PUT rejects with \<open>err\<close>.
\<close>

definition updateFolderTranslation_catch ::
  "('b \<Rightarrow> string) \<Rightarrow> FreshdeskApi \<Rightarrow> jsval \<Rightarrow> string \<Rightarrow> 'b \<Rightarrow> error \<Rightarrow> 'j world
     \<Rightarrow> 'j returned \<times> FreshdeskApi \<times> 'j world" where
  "updateFolderTranslation_catch JSON_stringify this ident lang body err w1 =
     (if code err = JNum 404 then
        (let (res2, w2) = fetch \<lparr>req_url = baseUrl this @ ''/api/v2/solutions/folders/''
                                    @ to_string ident @ ''/'' @ lang,
                                  req_method = POST,
                                  req_body = Some (JSON_stringify body),
                                  req_headers = defaultHeaders this\<rparr> w1
         in (Promise (promise_then (promise_then res2 checkStatus) json), this, w2))
      else
        (let this1 = (if code err = JNum 429 then this\<lparr>rateLimited := True\<rparr> else this);
             w2 = stdout_write (''Error processing id '' @ to_string ident
                    @ '' for locale '' @ lang @ '': '' @ message err @ [CHR 0x0A]) w1
         in (Promise (Inl err), this1, w2)))"

text \<open>
  The part of \<^verbatim>\<open>updateArticleTranslation\<close> that runs before the method returns (lines
  234 to 244): \<open>Inl\<close> the number returned, or \<open>Inr\<close> what the \<^verbatim>\<open>fetch\<close> of the PUT
  settles to later.
\<close>

definition updateArticleTranslation_sync ::
  "('b \<Rightarrow> string) \<Rightarrow> FreshdeskApi \<Rightarrow> jsval \<Rightarrow> string \<Rightarrow> 'b \<Rightarrow> 'j world
     \<Rightarrow> (int + (error + 'j response)) \<times> 'j world" where
  "updateArticleTranslation_sync JSON_stringify this ident lang body w =
     (if rateLimited this then
        (Inl (- 1),
         stdout_write (''Rate limited, skipping id: '' @ to_string ident @ '' for '' @ lang
                        @ [CHR 0x0A]) w)
      else
        (let (res, w1) = fetch \<lparr>req_url = baseUrl this @ ''/api/v2/solutions/articles/''
                                   @ to_string ident @ ''/'' @ lang,
                                 req_method = PUT,
                                 req_body = Some (JSON_stringify body),
                                 req_headers = defaultHeaders this\<rparr> w
         in (Inr res, w1)))"

text \<open>
  The handler \<^verbatim>\<open>(err) => {...}\<close> passed to \<^verbatim>\<open>.catch\<close> in
  \<^verbatim>\<open>updateArticleTranslation\<close> (lines 247 to 265), run on the instance and the world as
  they are when the chain of the PUT rejects with \<open>err\<close>.
\<close>

definition updateArticleTranslation_catch ::
  "('b \<Rightarrow> string) \<Rightarrow> FreshdeskApi \<Rightarrow> jsval \<Rightarrow> string \<Rightarrow> 'b \<Rightarrow> error \<Rightarrow> 'j world
     \<Rightarrow> 'j returned \<times> FreshdeskApi \<times> 'j world" where
  "updateArticleTranslation_catch JSON_stringify this ident lang body err w1 =
     (if code err = JNum 404 then
        (let (res2, w2) = fetch \<lparr>req_url = baseUrl this @ ''/api/v2/solutions/articles/''
                                    @ to_string ident @ ''/'' @ lang,
                                  req_method = POST,
                                  req_body = Some (JSON_stringify body),
                                  req_headers = defaultHeaders this\<rparr> w1
         in (Promise (promise_then (promise_then res2 checkStatus) json), this, w2))
      else
        (let this1 = (if code err = JNum 429 then this\<lparr>rateLimited := True\<rparr> else this);
             w2 = stdout_write (''Error processing id '' @ to_string ident
                    @ '' for locale '' @ lang @ '': '' @ message err @ [CHR 0x0A]) w1
         in (Promise (Inl err), this1, w2)))"

text \<open>
  The instance and the world together with the PUTs in flight: for each the call that
  issued it, whose arguments its handler closes over, and what its \<^verbatim>\<open>fetch\<close> settles
  to.
\<close>

record ('b, 'j) system =
  api :: FreshdeskApi
  env :: "'j world"
  pending :: "('b call \<times> (error + 'j response)) list"

text \<open>
  What happens at a call. A list method hands its GET to \<^verbatim>\<open>fetch\<close>; what follows
  the \<^verbatim>\<open>await\<close> touches neither the instance nor the world, so nothing stays
  pending. An upsert method either returns its number or leaves a PUT in flight.
\<close>

fun start_call ::
  "('b \<Rightarrow> string) \<Rightarrow> 'b call \<Rightarrow> FreshdeskApi \<Rightarrow> 'j world
     \<Rightarrow> (error + 'j response) option \<times> 'j world" where
  "start_call S ListCategories this w = (None, snd (snd (listCategories this w)))"
| "start_call S (ListFolders category) this w = (None, snd (snd (listFolders this category w)))"
| "start_call S (ListArticles folder) this w = (None, snd (snd (listArticles this folder w)))"
| "start_call S (UpdateCategoryTranslation ident lang body) this w =
     (case updateCategoryTranslation_sync S this ident lang body w of
        (Inl n, w') \<Rightarrow> (None, w')
      | (Inr res, w') \<Rightarrow> (Some res, w'))"
| "start_call S (UpdateFolderTranslation ident lang body) this w =
     (case updateFolderTranslation_sync S this ident lang body w of
        (Inl n, w') \<Rightarrow> (None, w')
      | (Inr res, w') \<Rightarrow> (Some res, w'))"
| "start_call S (UpdateArticleTranslation ident lang body) this w =
     (case updateArticleTranslation_sync S this ident lang body w of
        (Inl n, w') \<Rightarrow> (None, w')
      | (Inr res, w') \<Rightarrow> (Some res, w'))"

text \<open>
  The handler of the call whose chain rejected with \<open>err\<close>, on the instance and the
  world of that moment. The chain of the fallback POST it may start has no handler.
\<close>

fun on_rejected ::
  "('b \<Rightarrow> string) \<Rightarrow> 'b call \<Rightarrow> FreshdeskApi \<Rightarrow> error \<Rightarrow> 'j world
     \<Rightarrow> FreshdeskApi \<times> 'j world" where
  "on_rejected S (UpdateCategoryTranslation ident lang body) this err w =
     snd (updateCategoryTranslation_catch S this ident lang body err w)"
| "on_rejected S (UpdateFolderTranslation ident lang body) this err w =
     snd (updateFolderTranslation_catch S this ident lang body err w)"
| "on_rejected S (UpdateArticleTranslation ident lang body) this err w =
     snd (updateArticleTranslation_catch S this ident lang body err w)"
| "on_rejected S ListCategories this err w = (this, w)"
| "on_rejected S (ListFolders category) this err w = (this, w)"
| "on_rejected S (ListArticles folder) this err w = (this, w)"

text \<open>
  The events of an instance: a call by the caller, or the settling of the \<open>k\<close>-th PUT
  in flight. \<open>step\<close> performs one event and \<open>interleave\<close> a list of events in order;
  settling a PUT that is not in flight changes nothing.
\<close>

datatype 'b event = Call "'b call" | Settle nat

fun step :: "('b \<Rightarrow> string) \<Rightarrow> 'b event \<Rightarrow> ('b, 'j) system \<Rightarrow> ('b, 'j) system" where
  "step S (Call c) s =
     (case start_call S c (api s) (env s) of
        (None, w') \<Rightarrow> s\<lparr>env := w'\<rparr>
      | (Some res, w') \<Rightarrow> s\<lparr>env := w', pending := pending s @ [(c, res)]\<rparr>)"
| "step S (Settle k) s =
     (if k < length (pending s) then
        (case pending s ! k of
           (c, res) \<Rightarrow>
             (case outcome res of
                Inr j \<Rightarrow> s\<lparr>pending := take k (pending s) @ drop (Suc k) (pending s)\<rparr>
              | Inl err \<Rightarrow>
                  (case on_rejected S c (api s) err (env s) of
                     (this', w') \<Rightarrow>
                       s\<lparr>api := this', env := w',
                         pending := take k (pending s) @ drop (Suc k) (pending s)\<rparr>)))
      else s)"

fun interleave ::
  "('b \<Rightarrow> string) \<Rightarrow> 'b event list \<Rightarrow> ('b, 'j) system \<Rightarrow> ('b, 'j) system" where
  "interleave S [] s = s"
| "interleave S (e # es) s = interleave S es (step S e s)"

section \<open>Concrete scenarios\<close>

text \<open>
  An instance as the constructor builds it for the key \<^verbatim>\<open>abc\<close>, responses with and
  without a JSON content type, and a service that answers by the method of the request.
\<close>

definition example_api :: FreshdeskApi where
  "example_api =
     \<lparr>baseUrl = ''https://example.freshdesk.com'',
      auth = ''Basic YWJjOlg='',
      defaultHeaders = [(''Content-Type'', ''application/json''),
                        (''Authorization'', ''Basic YWJjOlg='')],
      rateLimited = False\<rparr>"

definition json_response :: "int \<Rightarrow> string \<Rightarrow> string \<Rightarrow> string response" where
  "json_response st txt doc =
     \<lparr>status = st, statusText = txt,
      headers = [''content-type'' \<mapsto> ''application/json; charset=utf-8''],
      json = Inr doc\<rparr>"

definition plain_response :: "int \<Rightarrow> string \<Rightarrow> string response" where
  "plain_response st txt =
     \<lparr>status = st, statusText = txt,
      headers = [''content-type'' \<mapsto> ''text/html''],
      json = Inl (new_Error ''invalid json response body'')\<rparr>"

definition by_method ::
  "(error + string response) \<Rightarrow> (error + string response) \<Rightarrow> (error + string response)
     \<Rightarrow> request list \<Rightarrow> error + string response" where
  "by_method get_answer put_answer post_answer reqs =
     (case req_method (last reqs) of
        GET \<Rightarrow> get_answer
      | PUT \<Rightarrow> put_answer
      | POST \<Rightarrow> post_answer)"

text \<open>A service that answers the requests in the order they are sent.\<close>

definition in_order ::
  "(error + string response) list \<Rightarrow> request list \<Rightarrow> error + string response" where
  "in_order answers reqs =
     (if 0 < length reqs \<and> length reqs \<le> length answers
      then answers ! (length reqs - 1)
      else Inl (new_Error ''network down''))"

definition example_world ::
  "(error + string response) \<Rightarrow> (error + string response) \<Rightarrow> (error + string response)
     \<Rightarrow> string world" where
  "example_world get_answer put_answer post_answer =
     \<lparr>network = by_method get_answer put_answer post_answer, sent = [], stdout = []\<rparr>"

text \<open>
  Two upserts made without awaiting the first: the service answers the first PUT with
  429 and the second with 500. \<open>overlap_start\<close> is the fresh instance with nothing in
  flight, \<open>overlap_calls\<close> makes both calls and lets the first PUT settle, and
  \<open>overlap_tripped\<close> is the system this leads to, the second PUT still in flight.
\<close>

definition overlap_start :: "(string, string) system" where
  "overlap_start =
     \<lparr>api = example_api,
      env = \<lparr>network = in_order [Inr (plain_response 429 ''Too Many Requests''),
                                 Inr (plain_response 500 ''Internal Server Error'')],
             sent = [], stdout = []\<rparr>,
      pending = []\<rparr>"

definition overlap_calls :: "string event list" where
  "overlap_calls =
     [Call (UpdateFolderTranslation (JNum 7) ''en'' ''{}''),
      Call (UpdateCategoryTranslation (JNum 1) ''en'' ''{}''),
      Settle 0]"

definition overlap_tripped :: "(string, string) system" where
  "overlap_tripped =
     \<lparr>api = example_api\<lparr>rateLimited := True\<rparr>,
      env = \<lparr>network = in_order [Inr (plain_response 429 ''Too Many Requests''),
                                 Inr (plain_response 500 ''Internal Server Error'')],
             sent = [\<lparr>req_url = ''https://example.freshdesk.com/api/v2/solutions/folders/7/en'',
                      req_method = PUT, req_body = Some ''{}'',
                      req_headers = [(''Content-Type'', ''application/json''),
                                     (''Authorization'', ''Basic YWJjOlg='')]\<rparr>,
                     \<lparr>req_url = ''https://example.freshdesk.com/api/v2/solutions/categories/1/en'',
                      req_method = PUT, req_body = Some ''{}'',
                      req_headers = [(''Content-Type'', ''application/json''),
                                     (''Authorization'', ''Basic YWJjOlg='')]\<rparr>],
             stdout = [''Error processing id 7 for locale en: response Too Many Requests''
                       @ [CHR 0x0A]]\<rparr>,
      pending = [(UpdateCategoryTranslation (JNum 1) ''en'' ''{}'',
                  Inr (plain_response 500 ''Internal Server Error''))]\<rparr>"


section \<open>Evaluation lemmas\<close>

lemma lower_content_type: "map to_lower ''content-type'' = ''content-type''"
  by (simp add: to_lower_def)

lemma lower_retry_after: "map to_lower ''Retry-After'' = ''retry-after''"
  by (simp add: to_lower_def char_of_def bit_Suc_0_iff)

lemma content_type_get: "headers_get h ''content-type'' = h ''content-type''"
  by (simp only: headers_get_def lower_content_type)

lemma retry_after_get: "headers_get h ''Retry-After'' = h ''retry-after''"
  by (simp only: headers_get_def lower_retry_after)

lemma show_id_1: "show_int 1 = ''1''"
  by (simp add: show_int_def show_nat.simps char_of_def bit_Suc_0_iff)

lemma show_id_7: "show_int 7 = ''7''"
  by (simp add: show_int_def show_nat.simps char_of_def bit_Suc_0_iff)

lemma show_id_42: "show_int 42 = ''42''"
  by (simp add: show_int_def show_nat.simps char_of_def bit_Suc_0_iff)

lemma base64_rfc4648_vectors:
  "base64 ''f'' = ''Zg=='' \<and> base64 ''fo'' = ''Zm8='' \<and> base64 ''foo'' = ''Zm9v''
   \<and> base64 ''foob'' = ''Zm9vYg=='' \<and> base64 ''fooba'' = ''Zm9vYmE=''
   \<and> base64 ''foobar'' = ''Zm9vYmFy''"
  by (simp add: b64_char_def b64_alphabet_def)

lemma base64_abc: "base64 ''abc:X'' = ''YWJjOlg=''"
  by (simp add: b64_char_def b64_alphabet_def)

lemma outcome_json_response:
  "200 \<le> st \<Longrightarrow> st \<le> 299 \<Longrightarrow> outcome (Inr (json_response st txt doc)) = Inr doc"
  by (simp add: outcome_def checkStatus_def ok_def json_response_def content_type_get
      startsWith_def)

lemma outcome_plain_response_error:
  "st < 200 \<or> 299 < st \<Longrightarrow>
   outcome (Inr (plain_response st txt)) =
     Inl \<lparr>message = ''response '' @ txt, code = JNum st,
          retryAfter = (if st = 429 then JNull else JUndefined)\<rparr>"
  by (auto simp add: outcome_def checkStatus_def ok_def plain_response_def retry_after_get
      new_Error_def)

lemma upsert_operations_cases:
  assumes "(seg, upd) \<in> set (upsert_operations S)"
  obtains "seg = ''categories''" and "upd = updateCategoryTranslation S"
  | "seg = ''folders''" and "upd = updateFolderTranslation S"
  | "seg = ''articles''" and "upd = updateArticleTranslation S"
  using assms by (auto simp add: upsert_operations_def)

section \<open>Response validation\<close>

text \<open>
  C6. For every response whose status is outside the success range, \<open>checkStatus\<close>
  throws an error whose \<open>code\<close> is the response's status and whose message carries the
  status text; when the status is 429 the error's \<open>retryAfter\<close> is the value of the
  \<^verbatim>\<open>Retry-After\<close> header (\<^verbatim>\<open>null\<close> when the header is absent), and it is left
  unassigned for every other status.
\<close>

theorem checkStatus_status_gate:
  assumes "\<not> ok res"
  shows "checkStatus res =
           Inl \<lparr>message = ''response '' @ statusText res,
                code = JNum (status res),
                retryAfter = (if status res = 429
                              then nullable (headers_get (headers res) ''Retry-After'')
                              else JUndefined)\<rparr>"
  using assms by (simp add: checkStatus_def new_Error_def Let_def)

theorem checkStatus_status_gate_witness:
  "\<not> ok \<lparr>status = 429, statusText = ''Too Many Requests'',
          headers = [''retry-after'' \<mapsto> ''30''], json = Inr (0::nat)\<rparr>
   \<and> checkStatus \<lparr>status = 429, statusText = ''Too Many Requests'',
          headers = [''retry-after'' \<mapsto> ''30''], json = Inr (0::nat)\<rparr>
       = Inl \<lparr>message = ''response Too Many Requests'', code = JNum 429,
              retryAfter = JStr ''30''\<rparr>"
  using checkStatus_status_gate
    [of "\<lparr>status = 429, statusText = ''Too Many Requests'',
          headers = [''retry-after'' \<mapsto> ''30''], json = Inr (0::nat)\<rparr>"]
  by (simp add: ok_def retry_after_get)

text \<open>
  C7. For every response whose status is in the success range: when the
  \<^verbatim>\<open>Content-Type\<close> header is present and starts with \<^verbatim>\<open>application/json\<close>,
  \<open>checkStatus\<close> returns the response; otherwise (the header is absent or starts
  differently) it throws an error whose message carries the content type the response
  has, whatever the body of the response is.
\<close>

theorem checkStatus_content_type_gate:
  assumes "ok res"
  shows "((\<exists>ct. headers_get (headers res) ''content-type'' = Some ct
              \<and> startsWith ct ''application/json'')
          \<longrightarrow> checkStatus res = Inr res)
       \<and> (\<not> (\<exists>ct. headers_get (headers res) ''content-type'' = Some ct
              \<and> startsWith ct ''application/json'')
          \<longrightarrow> (\<forall>b. checkStatus (res\<lparr>json := b\<rparr>) =
                Inl \<lparr>message = ''response not json: ''
                       @ to_string (nullable (headers_get (headers res) ''content-type'')),
                     code = JUndefined, retryAfter = JUndefined\<rparr>))"
  using assms by (auto simp add: checkStatus_def new_Error_def ok_def split: option.splits)

theorem checkStatus_content_type_gate_witness:
  "ok (json_response 200 ''OK'' ''[]'')
   \<and> headers_get (headers (json_response 200 ''OK'' ''[]'')) ''content-type''
       = Some ''application/json; charset=utf-8''
   \<and> startsWith ''application/json; charset=utf-8'' ''application/json''
   \<and> checkStatus (json_response 200 ''OK'' ''[]'') = Inr (json_response 200 ''OK'' ''[]'')
   \<and> ok (plain_response 200 ''OK'')
   \<and> headers_get (headers (plain_response 200 ''OK'')) ''content-type'' = Some ''text/html''
   \<and> \<not> startsWith ''text/html'' ''application/json''
   \<and> checkStatus ((plain_response 200 ''OK'')\<lparr>json := Inr ''[]''\<rparr>)
       = Inl \<lparr>message = ''response not json: text/html'', code = JUndefined,
              retryAfter = JUndefined\<rparr>
   \<and> ok \<lparr>status = 204, statusText = ''No Content'', headers = Map.empty, json = Inr ''[]''\<rparr>
   \<and> headers_get Map.empty ''content-type'' = None
   \<and> checkStatus \<lparr>status = 204, statusText = ''No Content'', headers = Map.empty,
                   json = Inr ''[]''\<rparr>
       = Inl \<lparr>message = ''response not json: null'', code = JUndefined,
              retryAfter = JUndefined\<rparr>"
  using checkStatus_content_type_gate [of "json_response 200 ''OK'' ''[]''"]
    checkStatus_content_type_gate [of "plain_response 200 ''OK''"]
    checkStatus_content_type_gate
      [of "\<lparr>status = 204, statusText = ''No Content'', headers = Map.empty, json = Inr ''[]''\<rparr>"]
  by (simp add: ok_def json_response_def plain_response_def content_type_get startsWith_def)

section \<open>The upsert methods\<close>

text \<open>
  C3. Whenever \<open>rateLimited\<close> is true, each of the three upsert methods, for any id,
  locale and body, returns the number \<^verbatim>\<open>-1\<close> (not a promise), writes the line
  \<^verbatim>\<open>Rate limited, skipping id: <id> for <locale>\<close> to standard output and issues no
  request: the log of sent requests and the instance are as before the call.
\<close>

theorem circuit_breaker:
  assumes "(seg, upd) \<in> set (upsert_operations S)"
    and "rateLimited this"
  shows "upd this ident lang body w =
           (Number (- 1), this,
            w\<lparr>stdout := stdout w @ [''Rate limited, skipping id: '' @ to_string ident
                                      @ '' for '' @ lang @ [CHR 0x0A]]\<rparr>)"
  using assms(1)
proof (cases rule: upsert_operations_cases)
  case 1
  then show ?thesis using assms(2)
    by (simp add: updateCategoryTranslation_def stdout_write_def)
next
  case 2
  then show ?thesis using assms(2)
    by (simp add: updateFolderTranslation_def stdout_write_def)
next
  case 3
  then show ?thesis using assms(2)
    by (simp add: updateArticleTranslation_def stdout_write_def)
qed

theorem circuit_breaker_witness:
  "(''categories'', updateCategoryTranslation (\<lambda>b. b)) \<in> set (upsert_operations (\<lambda>b. b))
   \<and> rateLimited (example_api\<lparr>rateLimited := True\<rparr>)
   \<and> updateCategoryTranslation (\<lambda>b. b) (example_api\<lparr>rateLimited := True\<rparr>) (JNum 1) ''en'' ''{}''
        (example_world (Inr (json_response 200 ''OK'' ''[]''))
           (Inr (json_response 200 ''OK'' ''{}'')) (Inr (json_response 201 ''Created'' ''{}'')))
      = (Number (- 1), example_api\<lparr>rateLimited := True\<rparr>,
         \<lparr>network = by_method (Inr (json_response 200 ''OK'' ''[]''))
                      (Inr (json_response 200 ''OK'' ''{}''))
                      (Inr (json_response 201 ''Created'' ''{}'')),
          sent = [],
          stdout = [''Rate limited, skipping id: 1 for en'' @ [CHR 0x0A]]\<rparr>)"
  using circuit_breaker
    [where seg = "''categories''" and upd = "updateCategoryTranslation (\<lambda>b. b)"
       and S = "\<lambda>b. b" and this = "example_api\<lparr>rateLimited := True\<rparr>"
       and ident = "JNum 1" and lang = "''en''" and body = "''{}''"
       and w = "example_world (Inr (json_response 200 ''OK'' ''[]''))
           (Inr (json_response 200 ''OK'' ''{}'')) (Inr (json_response 201 ''Created'' ''{}''))"]
  by (simp add: upsert_operations_def example_world_def show_id_1)

text \<open>
  C1. For each of the three upsert methods on an instance whose \<open>rateLimited\<close> is
  false: when the chain of the initial PUT rejects with an error whose \<open>code\<close> is 404
  (as \<open>checkStatus\<close> raises for a response of status 404), the method issues exactly
  one more request, a POST with the URL, the JSON-encoded body and the default headers of
  the PUT, and the promise it returns settles as the chain of that POST does, fulfilled
  or rejected. Nothing is written to standard output and the instance is unchanged.
\<close>

theorem upsert_fallback_law:
  assumes "(seg, upd) \<in> set (upsert_operations S)"
    and "\<not> rateLimited this"
    and "put = translation_request S this seg PUT ident lang body"
    and "post = translation_request S this seg POST ident lang body"
    and "outcome (network w (sent w @ [put])) = Inl err"
    and "code err = JNum 404"
  shows "upd this ident lang body w =
           (Promise (outcome (network w (sent w @ [put, post]))), this,
            w\<lparr>sent := sent w @ [put, post]\<rparr>)
         \<and> post = put\<lparr>req_method := POST\<rparr>"
  using assms(1)
proof (cases rule: upsert_operations_cases)
  case 1
  then show ?thesis using assms(2-)
    by (simp add: updateCategoryTranslation_def fetch_def translation_request_def outcome_def)
next
  case 2
  then show ?thesis using assms(2-)
    by (simp add: updateFolderTranslation_def fetch_def translation_request_def outcome_def)
next
  case 3
  then show ?thesis using assms(2-)
    by (simp add: updateArticleTranslation_def fetch_def translation_request_def outcome_def)
qed

theorem upsert_fallback_law_witness:
  "(''articles'', updateArticleTranslation (\<lambda>b. b)) \<in> set (upsert_operations (\<lambda>b. b))
   \<and> \<not> rateLimited example_api
   \<and> outcome (network (example_world (Inl (new_Error ''unused''))
                 (Inr (plain_response 404 ''Not Found''))
                 (Inr (json_response 201 ''Created'' ''{id:42,locale:fr,title:Bonjour}'')))
               ([] @ [translation_request (\<lambda>b. b) example_api ''articles'' PUT (JNum 42) ''fr''
                        ''{title:Bonjour}'']))
       = Inl \<lparr>message = ''response Not Found'', code = JNum 404, retryAfter = JUndefined\<rparr>
   \<and> updateArticleTranslation (\<lambda>b. b) example_api (JNum 42) ''fr'' ''{title:Bonjour}''
        (example_world (Inl (new_Error ''unused''))
           (Inr (plain_response 404 ''Not Found''))
           (Inr (json_response 201 ''Created'' ''{id:42,locale:fr,title:Bonjour}'')))
      = (Promise (Inr ''{id:42,locale:fr,title:Bonjour}''), example_api,
         \<lparr>network = by_method (Inl (new_Error ''unused''))
                      (Inr (plain_response 404 ''Not Found''))
                      (Inr (json_response 201 ''Created'' ''{id:42,locale:fr,title:Bonjour}'')),
          sent = [\<lparr>req_url = ''https://example.freshdesk.com/api/v2/solutions/articles/42/fr'',
                   req_method = PUT, req_body = Some ''{title:Bonjour}'',
                   req_headers = [(''Content-Type'', ''application/json''),
                                  (''Authorization'', ''Basic YWJjOlg='')]\<rparr>,
                  \<lparr>req_url = ''https://example.freshdesk.com/api/v2/solutions/articles/42/fr'',
                   req_method = POST, req_body = Some ''{title:Bonjour}'',
                   req_headers = [(''Content-Type'', ''application/json''),
                                  (''Authorization'', ''Basic YWJjOlg='')]\<rparr>],
          stdout = []\<rparr>)"
  using upsert_fallback_law
    [where seg = "''articles''" and upd = "updateArticleTranslation (\<lambda>b. b)"
       and S = "\<lambda>b. b" and this = example_api
       and ident = "JNum 42" and lang = "''fr''" and body = "''{title:Bonjour}''"
       and w = "example_world (Inl (new_Error ''unused''))
           (Inr (plain_response 404 ''Not Found''))
           (Inr (json_response 201 ''Created'' ''{id:42,locale:fr,title:Bonjour}''))"
       and put = "translation_request (\<lambda>b. b) example_api ''articles'' PUT (JNum 42) ''fr''
                        ''{title:Bonjour}''"
       and post = "translation_request (\<lambda>b. b) example_api ''articles'' POST (JNum 42) ''fr''
                        ''{title:Bonjour}''"
       and err = "\<lparr>message = ''response Not Found'', code = JNum 404, retryAfter = JUndefined\<rparr>"]
    outcome_plain_response_error [of 404 "''Not Found''"]
    outcome_json_response [of 201 "''Created''" "''{id:42,locale:fr,title:Bonjour}''"]
  by (simp add: upsert_operations_def example_world_def by_method_def translation_request_def
      example_api_def show_id_42)

text \<open>
  C5. For each of the three upsert methods on an instance whose \<open>rateLimited\<close> is
  false: when the chain of the initial PUT rejects with an error whose \<open>code\<close> is not
  404, the PUT is the only request issued (no POST), the promise returned rejects with
  that same error, and \<open>rateLimited\<close> becomes true exactly when the error's \<open>code\<close>
  is 429.
\<close>

theorem non_404_failure:
  assumes "(seg, upd) \<in> set (upsert_operations S)"
    and "\<not> rateLimited this"
    and "put = translation_request S this seg PUT ident lang body"
    and "outcome (network w (sent w @ [put])) = Inl err"
    and "code err \<noteq> JNum 404"
  shows "upd this ident lang body w =
           (Promise (Inl err),
            (if code err = JNum 429 then this\<lparr>rateLimited := True\<rparr> else this),
            w\<lparr>sent := sent w @ [put],
              stdout := stdout w @ [''Error processing id '' @ to_string ident
                          @ '' for locale '' @ lang @ '': '' @ message err @ [CHR 0x0A]]\<rparr>)"
  using assms(1)
proof (cases rule: upsert_operations_cases)
  case 1
  then show ?thesis using assms(2-)
    by (simp add: updateCategoryTranslation_def fetch_def translation_request_def outcome_def
        stdout_write_def)
next
  case 2
  then show ?thesis using assms(2-)
    by (simp add: updateFolderTranslation_def fetch_def translation_request_def outcome_def
        stdout_write_def)
next
  case 3
  then show ?thesis using assms(2-)
    by (simp add: updateArticleTranslation_def fetch_def translation_request_def outcome_def
        stdout_write_def)
qed

theorem non_404_failure_witness:
  "(''folders'', updateFolderTranslation (\<lambda>b. b)) \<in> set (upsert_operations (\<lambda>b. b))
   \<and> \<not> rateLimited example_api
   \<and> outcome (network (example_world (Inl (new_Error ''unused''))
                 (Inr (plain_response 429 ''Too Many Requests''))
                 (Inr (json_response 201 ''Created'' ''{}'')))
               ([] @ [translation_request (\<lambda>b. b) example_api ''folders'' PUT (JNum 7) ''en''
                        ''{}'']))
       = Inl \<lparr>message = ''response Too Many Requests'', code = JNum 429, retryAfter = JNull\<rparr>
   \<and> JNum 429 \<noteq> JNum 404
   \<and> updateFolderTranslation (\<lambda>b. b) example_api (JNum 7) ''en'' ''{}''
        (example_world (Inl (new_Error ''unused''))
           (Inr (plain_response 429 ''Too Many Requests''))
           (Inr (json_response 201 ''Created'' ''{}'')))
      = (Promise (Inl \<lparr>message = ''response Too Many Requests'', code = JNum 429,
                       retryAfter = JNull\<rparr>),
         example_api\<lparr>rateLimited := True\<rparr>,
         \<lparr>network = by_method (Inl (new_Error ''unused''))
                      (Inr (plain_response 429 ''Too Many Requests''))
                      (Inr (json_response 201 ''Created'' ''{}'')),
          sent = [\<lparr>req_url = ''https://example.freshdesk.com/api/v2/solutions/folders/7/en'',
                   req_method = PUT, req_body = Some ''{}'',
                   req_headers = [(''Content-Type'', ''application/json''),
                                  (''Authorization'', ''Basic YWJjOlg='')]\<rparr>],
          stdout = [''Error processing id 7 for locale en: response Too Many Requests''
                    @ [CHR 0x0A]]\<rparr>)"
  using non_404_failure
    [where seg = "''folders''" and upd = "updateFolderTranslation (\<lambda>b. b)"
       and S = "\<lambda>b. b" and this = example_api
       and ident = "JNum 7" and lang = "''en''" and body = "''{}''"
       and w = "example_world (Inl (new_Error ''unused''))
           (Inr (plain_response 429 ''Too Many Requests''))
           (Inr (json_response 201 ''Created'' ''{}''))"
       and put = "translation_request (\<lambda>b. b) example_api ''folders'' PUT (JNum 7) ''en'' ''{}''"
       and err = "\<lparr>message = ''response Too Many Requests'', code = JNum 429,
                   retryAfter = JNull\<rparr>"]
    outcome_plain_response_error [of 429 "''Too Many Requests''"]
  by (simp add: upsert_operations_def example_world_def by_method_def translation_request_def
      example_api_def show_id_7)

section \<open>The rate-limit flag over the life of an instance\<close>

lemma list_keeps_instance:
  "fst (snd (listCategories this w)) = this"
  "fst (snd (listFolders this category w)) = this"
  "fst (snd (listArticles this folder w)) = this"
  by (simp_all add: listCategories_def listFolders_def listArticles_def fetch_def)

lemma upsert_skips_when_rateLimited:
  assumes "rateLimited this"
  shows "fst (snd (updateCategoryTranslation S this ident lang body w)) = this"
    and "fst (snd (updateFolderTranslation S this ident lang body w)) = this"
    and "fst (snd (updateArticleTranslation S this ident lang body w)) = this"
  using assms
  by (simp_all add: updateCategoryTranslation_def updateFolderTranslation_def
      updateArticleTranslation_def)

lemma invoke_keeps_rateLimited:
  assumes "rateLimited this"
  shows "rateLimited (fst (snd (invoke S c this w)))"
proof (cases c)
  case ListCategories
  then show ?thesis using assms by (simp add: list_keeps_instance)
next
  case (ListFolders category)
  then show ?thesis using assms by (simp add: list_keeps_instance)
next
  case (ListArticles folder)
  then show ?thesis using assms by (simp add: list_keeps_instance)
next
  case (UpdateCategoryTranslation ident lang body)
  then show ?thesis using assms by (simp add: upsert_skips_when_rateLimited)
next
  case (UpdateFolderTranslation ident lang body)
  then show ?thesis using assms by (simp add: upsert_skips_when_rateLimited)
next
  case (UpdateArticleTranslation ident lang body)
  then show ?thesis using assms by (simp add: upsert_skips_when_rateLimited)
qed

lemma run_keeps_rateLimited:
  "rateLimited this \<Longrightarrow> rateLimited (fst (run S cs this w))"
proof (induction cs arbitrary: this w)
  case Nil
  then show ?case by simp
next
  case (Cons c cs)
  obtain r this' w' where step: "invoke S c this w = (r, this', w')"
    by (cases "invoke S c this w") auto
  from Cons.prems have "rateLimited this'"
    using invoke_keeps_rateLimited [of this S c w] step by simp
  then have "rateLimited (fst (run S cs this' w'))"
    by (rule Cons.IH)
  then show ?case using step by simp
qed

lemma upsert_is_sync_then_catch:
  "updateCategoryTranslation S this ident lang body w =
     (case updateCategoryTranslation_sync S this ident lang body w of
        (Inl n, w') \<Rightarrow> (Number n, this, w')
      | (Inr res, w1) \<Rightarrow>
          (case outcome res of
             Inr j \<Rightarrow> (Promise (Inr j), this, w1)
           | Inl err \<Rightarrow> updateCategoryTranslation_catch S this ident lang body err w1))"
  "updateFolderTranslation S this ident lang body w =
     (case updateFolderTranslation_sync S this ident lang body w of
        (Inl n, w') \<Rightarrow> (Number n, this, w')
      | (Inr res, w1) \<Rightarrow>
          (case outcome res of
             Inr j \<Rightarrow> (Promise (Inr j), this, w1)
           | Inl err \<Rightarrow> updateFolderTranslation_catch S this ident lang body err w1))"
  "updateArticleTranslation S this ident lang body w =
     (case updateArticleTranslation_sync S this ident lang body w of
        (Inl n, w') \<Rightarrow> (Number n, this, w')
      | (Inr res, w1) \<Rightarrow>
          (case outcome res of
             Inr j \<Rightarrow> (Promise (Inr j), this, w1)
           | Inl err \<Rightarrow> updateArticleTranslation_catch S this ident lang body err w1))"
  by (simp_all add: updateCategoryTranslation_def updateCategoryTranslation_sync_def
      updateCategoryTranslation_catch_def updateFolderTranslation_def
      updateFolderTranslation_sync_def updateFolderTranslation_catch_def
      updateArticleTranslation_def updateArticleTranslation_sync_def
      updateArticleTranslation_catch_def outcome_def fetch_def split: sum.splits)

lemma catch_keeps_rateLimited:
  assumes "rateLimited this"
  shows "rateLimited (fst (snd (updateCategoryTranslation_catch S this ident lang body err w)))"
    and "rateLimited (fst (snd (updateFolderTranslation_catch S this ident lang body err w)))"
    and "rateLimited (fst (snd (updateArticleTranslation_catch S this ident lang body err w)))"
  using assms
  by (simp_all add: updateCategoryTranslation_catch_def updateFolderTranslation_catch_def
      updateArticleTranslation_catch_def fetch_def)

lemma on_rejected_keeps_rateLimited:
  assumes "rateLimited this"
  shows "rateLimited (fst (on_rejected S c this err w))"
  using assms by (cases c) (simp_all add: catch_keeps_rateLimited)

lemma step_keeps_rateLimited:
  assumes "rateLimited (api s)"
  shows "rateLimited (api (step S e s))"
proof (cases e)
  case (Call c)
  obtain r w' where "start_call S c (api s) (env s) = (r, w')"
    by (cases "start_call S c (api s) (env s)") auto
  then show ?thesis using assms Call by (cases r) simp_all
next
  case (Settle k)
  show ?thesis
  proof (cases "k < length (pending s)")
    case False
    then show ?thesis using assms Settle by simp
  next
    case True
    obtain c res where task: "pending s ! k = (c, res)"
      by (cases "pending s ! k") auto
    show ?thesis
    proof (cases "outcome res")
      case (Inr j)
      then show ?thesis using assms Settle True task by simp
    next
      case (Inl err)
      obtain this' w' where h: "on_rejected S c (api s) err (env s) = (this', w')"
        by (cases "on_rejected S c (api s) err (env s)") auto
      have "rateLimited this'"
        using on_rejected_keeps_rateLimited [OF assms, of S c err "env s"] h by simp
      then show ?thesis using Settle True task Inl h by simp
    qed
  qed
qed

lemma interleave_keeps_rateLimited:
  "rateLimited (api s) \<Longrightarrow> rateLimited (api (interleave S es s))"
proof (induction es arbitrary: s)
  case Nil
  then show ?case by simp
next
  case (Cons e es)
  from Cons.prems have "rateLimited (api (step S e s))"
    by (rule step_keeps_rateLimited)
  then show ?case using Cons.IH by simp
qed

lemma awaited_call_is_invoke:
  "api (interleave S [Call c, Settle 0] \<lparr>api = this, env = w, pending = []\<rparr>)
     = fst (snd (invoke S c this w))
   \<and> env (interleave S [Call c, Settle 0] \<lparr>api = this, env = w, pending = []\<rparr>)
     = snd (snd (invoke S c this w))"
proof (cases c)
  case ListCategories
  then show ?thesis by (simp add: listCategories_def fetch_def)
next
  case (ListFolders category)
  then show ?thesis by (simp add: listFolders_def fetch_def)
next
  case (ListArticles folder)
  then show ?thesis by (simp add: listArticles_def fetch_def)
next
  case (UpdateCategoryTranslation ident lang body)
  then show ?thesis
    by (simp add: upsert_is_sync_then_catch(1) updateCategoryTranslation_sync_def fetch_def
        split: sum.splits prod.splits)
next
  case (UpdateFolderTranslation ident lang body)
  then show ?thesis
    by (simp add: upsert_is_sync_then_catch(2) updateFolderTranslation_sync_def fetch_def
        split: sum.splits prod.splits)
next
  case (UpdateArticleTranslation ident lang body)
  then show ?thesis
    by (simp add: upsert_is_sync_then_catch(3) updateArticleTranslation_sync_def fetch_def
        split: sum.splits prod.splits)
qed

lemma on_rejected_instance:
  "fst (on_rejected S c this err w) = this
   \<or> fst (on_rejected S c this err w) = this\<lparr>rateLimited := True\<rparr>"
  by (cases c)
    (simp_all add: updateCategoryTranslation_catch_def updateFolderTranslation_catch_def
      updateArticleTranslation_catch_def fetch_def)

lemma step_instance:
  "api (step S e s) = api s \<or> api (step S e s) = (api s)\<lparr>rateLimited := True\<rparr>"
proof (cases e)
  case (Call c)
  obtain r w' where "start_call S c (api s) (env s) = (r, w')"
    by (cases "start_call S c (api s) (env s)") auto
  then show ?thesis using Call by (cases r) simp_all
next
  case (Settle k)
  show ?thesis
  proof (cases "k < length (pending s)")
    case False
    then show ?thesis using Settle by simp
  next
    case True
    obtain c res where task: "pending s ! k = (c, res)"
      by (cases "pending s ! k") auto
    show ?thesis
    proof (cases "outcome res")
      case (Inr j)
      then show ?thesis using Settle True task by simp
    next
      case (Inl err)
      obtain this' w' where h: "on_rejected S c (api s) err (env s) = (this', w')"
        by (cases "on_rejected S c (api s) err (env s)") auto
      have "this' = api s \<or> this' = (api s)\<lparr>rateLimited := True\<rparr>"
        using on_rejected_instance [of S c "api s" err "env s"] h by simp
      then show ?thesis using Settle True task Inl h by auto
    qed
  qed
qed

lemma in_order_first: "in_order (a # as) [r] = a"
  by (simp add: in_order_def)

lemma in_order_second: "in_order (a # b # as) [r, r'] = b"
  by (simp add: in_order_def)

lemma overlap_reaches_tripped:
  "interleave (\<lambda>b. b) overlap_calls overlap_start = overlap_tripped"
  using outcome_plain_response_error [of 429 "''Too Many Requests''"]
  by (simp add: overlap_calls_def overlap_start_def overlap_tripped_def
      updateFolderTranslation_sync_def updateCategoryTranslation_sync_def
      updateFolderTranslation_catch_def fetch_def stdout_write_def example_api_def
      in_order_first in_order_second show_id_1 show_id_7)

text \<open>
  C8. The constructor leaves \<open>rateLimited\<close> false, and nothing that happens on the
  instance afterwards takes it from true back to false. This holds for each awaited call
  of any of the six methods and each sequence of them; for the handler of \<^verbatim>\<open>.catch\<close>
  of each upsert method, run on an instance whose flag is already true, whatever the
  error; and for every event of an instance with calls in flight together (a call, or the
  settling of any PUT in flight) and every sequence of such events. Each event leaves the
  instance as it was or sets \<open>rateLimited\<close> to true, and changes nothing else in it.
\<close>

theorem rateLimited_never_reset:
  "\<not> rateLimited (fst (constructor url key w0))
   \<and> (rateLimited this \<longrightarrow>
        rateLimited (fst (snd (invoke S c this w)))
        \<and> rateLimited (fst (run S cs this w))
        \<and> rateLimited (fst (snd (updateCategoryTranslation_catch S this ident lang body err w)))
        \<and> rateLimited (fst (snd (updateFolderTranslation_catch S this ident lang body err w)))
        \<and> rateLimited (fst (snd (updateArticleTranslation_catch S this ident lang body err w))))
   \<and> (api (step S e s) = api s \<or> api (step S e s) = (api s)\<lparr>rateLimited := True\<rparr>)
   \<and> (rateLimited (api s) \<longrightarrow>
        rateLimited (api (step S e s)) \<and> rateLimited (api (interleave S es s)))"
  using step_instance [of S e s]
  by (simp add: constructor_def Let_def invoke_keeps_rateLimited run_keeps_rateLimited
      catch_keeps_rateLimited step_keeps_rateLimited interleave_keeps_rateLimited)

theorem rateLimited_never_reset_witness:
  "\<not> rateLimited (fst (constructor ''https://example.freshdesk.com'' ''abc'' (env overlap_start)))
   \<and> interleave (\<lambda>b. b) overlap_calls overlap_start = overlap_tripped
   \<and> rateLimited (api overlap_tripped)
   \<and> rateLimited (fst (snd (invoke (\<lambda>b. b) (UpdateFolderTranslation (JNum 7) ''en'' ''{}'')
        (api overlap_tripped) (env overlap_tripped))))
   \<and> rateLimited (fst (run (\<lambda>b. b)
        [ListCategories, UpdateCategoryTranslation (JNum 1) ''en'' ''{}'',
         ListArticles \<lparr>folder_id = JNum 7\<rparr>, UpdateArticleTranslation (JNum 42) ''fr'' ''{}'']
        (api overlap_tripped) (env overlap_tripped)))
   \<and> rateLimited (fst (snd (updateCategoryTranslation_catch (\<lambda>b. b) (api overlap_tripped)
        (JNum 1) ''en'' ''{}''
        \<lparr>message = ''response Internal Server Error'', code = JNum 500, retryAfter = JUndefined\<rparr>
        (env overlap_tripped))))
   \<and> rateLimited (fst (snd (updateFolderTranslation_catch (\<lambda>b. b) (api overlap_tripped)
        (JNum 1) ''en'' ''{}''
        \<lparr>message = ''response Internal Server Error'', code = JNum 500, retryAfter = JUndefined\<rparr>
        (env overlap_tripped))))
   \<and> rateLimited (fst (snd (updateArticleTranslation_catch (\<lambda>b. b) (api overlap_tripped)
        (JNum 1) ''en'' ''{}''
        \<lparr>message = ''response Internal Server Error'', code = JNum 500, retryAfter = JUndefined\<rparr>
        (env overlap_tripped))))
   \<and> rateLimited (api (step (\<lambda>b. b) (Settle 0) overlap_tripped))
   \<and> stdout (env (step (\<lambda>b. b) (Settle 0) overlap_tripped))
       = [''Error processing id 7 for locale en: response Too Many Requests'' @ [CHR 0x0A],
          ''Error processing id 1 for locale en: response Internal Server Error'' @ [CHR 0x0A]]
   \<and> rateLimited (api (interleave (\<lambda>b. b) [Settle 0, Call ListCategories] overlap_tripped))"
proof -
  have tripped: "rateLimited (api overlap_tripped)"
    by (simp add: overlap_tripped_def)
  have second_handler:
    "stdout (env (step (\<lambda>b. b) (Settle 0) overlap_tripped))
       = [''Error processing id 7 for locale en: response Too Many Requests'' @ [CHR 0x0A],
          ''Error processing id 1 for locale en: response Internal Server Error'' @ [CHR 0x0A]]"
    using outcome_plain_response_error [of 500 "''Internal Server Error''"]
    by (simp add: overlap_tripped_def updateCategoryTranslation_catch_def stdout_write_def
        show_id_1)
  show ?thesis
    using rateLimited_never_reset
      [where url = "''https://example.freshdesk.com''" and key = "''abc''"
         and ?w0.0 = "env overlap_start"
         and this = "api overlap_tripped"
         and S = "\<lambda>b. b"
         and c = "UpdateFolderTranslation (JNum 7) ''en'' ''{}''"
         and w = "env overlap_tripped"
         and cs = "[ListCategories, UpdateCategoryTranslation (JNum 1) ''en'' ''{}'',
           ListArticles \<lparr>folder_id = JNum 7\<rparr>, UpdateArticleTranslation (JNum 42) ''fr'' ''{}'']"
         and ident = "JNum 1" and lang = "''en''" and body = "''{}''"
         and err = "\<lparr>message = ''response Internal Server Error'', code = JNum 500,
                     retryAfter = JUndefined\<rparr>"
         and e = "Settle 0" and s = overlap_tripped
         and es = "[Settle 0, Call ListCategories]"]
      tripped second_handler overlap_reaches_tripped
    by blast
qed

section \<open>Construction\<close>

text \<open>
  C9. For every API key the constructor computes the \<^verbatim>\<open>Authorization\<close> value
  \<^verbatim>\<open>Basic \<close> followed by the base64 encoding of the key followed by \<^verbatim>\<open>:X\<close>, stores it
  in the default headers next to \<^verbatim>\<open>Content-Type: application/json\<close>, starts with
  \<open>rateLimited\<close> false, and sends no request and writes nothing: the world is as before.
\<close>

theorem constructor_auth_header:
  "constructor url key w =
     (\<lparr>baseUrl = url,
       auth = ''Basic '' @ base64 (key @ '':X''),
       defaultHeaders = [(''Content-Type'', ''application/json''),
                         (''Authorization'', ''Basic '' @ base64 (key @ '':X''))],
       rateLimited = False\<rparr>, w)"
  by (simp add: constructor_def Let_def)

theorem constructor_auth_header_witness:
  "constructor ''https://example.freshdesk.com'' ''abc''
     (example_world (Inl (new_Error ''down'')) (Inl (new_Error ''down'')) (Inl (new_Error ''down'')))
   = (example_api,
      example_world (Inl (new_Error ''down'')) (Inl (new_Error ''down'')) (Inl (new_Error ''down'')))"
  using constructor_auth_header [of "''https://example.freshdesk.com''" "''abc''"
      "example_world (Inl (new_Error ''down'')) (Inl (new_Error ''down'')) (Inl (new_Error ''down''))"]
  by (simp add: example_api_def base64_abc del: base64.simps)

section \<open>The list methods\<close>

text \<open>
  C10. The three list methods do not consult \<open>rateLimited\<close> and do not change the
  instance: whatever the flag is, each issues its GET with the default headers, returns
  the promise of that request's chain, and leaves the instance as it was, also when the
  chain rejects with an error of code 429.
\<close>

theorem list_operations_not_gated:
  "listCategories this w =
     (Promise (outcome (network w (sent w @ [list_request this ''/api/v2/solutions/categories'']))),
      this,
      w\<lparr>sent := sent w @ [list_request this ''/api/v2/solutions/categories'']\<rparr>)
   \<and> listFolders this category w =
     (Promise (outcome (network w (sent w @ [list_request this
          (''/api/v2/solutions/categories/'' @ to_string (category_id category) @ ''/folders'')]))),
      this,
      w\<lparr>sent := sent w @ [list_request this
          (''/api/v2/solutions/categories/'' @ to_string (category_id category) @ ''/folders'')]\<rparr>)
   \<and> listArticles this folder w =
     (Promise (outcome (network w (sent w @ [list_request this
          (''/api/v2/solutions/folders/'' @ to_string (folder_id folder) @ ''/articles'')]))),
      this,
      w\<lparr>sent := sent w @ [list_request this
          (''/api/v2/solutions/folders/'' @ to_string (folder_id folder) @ ''/articles'')]\<rparr>)"
  by (simp add: listCategories_def listFolders_def listArticles_def fetch_def list_request_def
      outcome_def)

theorem list_operations_not_gated_witness:
  "listCategories (example_api\<lparr>rateLimited := True\<rparr>)
     (example_world (Inr (plain_response 429 ''Too Many Requests''))
        (Inl (new_Error ''unused'')) (Inl (new_Error ''unused'')))
   = (Promise (Inl \<lparr>message = ''response Too Many Requests'', code = JNum 429,
                    retryAfter = JNull\<rparr>),
      example_api\<lparr>rateLimited := True\<rparr>,
      \<lparr>network = by_method (Inr (plain_response 429 ''Too Many Requests''))
                   (Inl (new_Error ''unused'')) (Inl (new_Error ''unused'')),
       sent = [\<lparr>req_url = ''https://example.freshdesk.com/api/v2/solutions/categories'',
                req_method = GET, req_body = None,
                req_headers = [(''Content-Type'', ''application/json''),
                               (''Authorization'', ''Basic YWJjOlg='')]\<rparr>],
       stdout = []\<rparr>)
   \<and> listFolders example_api \<lparr>category_id = JNum 1\<rparr>
     (example_world (Inr (plain_response 429 ''Too Many Requests''))
        (Inl (new_Error ''unused'')) (Inl (new_Error ''unused'')))
   = (Promise (Inl \<lparr>message = ''response Too Many Requests'', code = JNum 429,
                    retryAfter = JNull\<rparr>),
      example_api,
      \<lparr>network = by_method (Inr (plain_response 429 ''Too Many Requests''))
                   (Inl (new_Error ''unused'')) (Inl (new_Error ''unused'')),
       sent = [\<lparr>req_url = ''https://example.freshdesk.com/api/v2/solutions/categories/1/folders'',
                req_method = GET, req_body = None,
                req_headers = [(''Content-Type'', ''application/json''),
                               (''Authorization'', ''Basic YWJjOlg='')]\<rparr>],
       stdout = []\<rparr>)
   \<and> \<not> rateLimited example_api"
  using list_operations_not_gated
    [of "example_api\<lparr>rateLimited := True\<rparr>"
      "example_world (Inr (plain_response 429 ''Too Many Requests''))
        (Inl (new_Error ''unused'')) (Inl (new_Error ''unused''))"]
    list_operations_not_gated
    [of example_api
      "example_world (Inr (plain_response 429 ''Too Many Requests''))
        (Inl (new_Error ''unused'')) (Inl (new_Error ''unused''))"
      "\<lparr>category_id = JNum 1\<rparr>"]
    outcome_plain_response_error [of 429 "''Too Many Requests''"]
  by (simp add: example_world_def by_method_def list_request_def example_api_def show_id_1)

section \<open>A failing fallback POST\<close>

text \<open>
  C2. The 404 branch of the handler returns the chain of the POST before the check for
  code 429 is reached. With the PUT answered 404 and the fallback POST answered 429, the
  upsert rejects with the error of code 429 and \<open>rateLimited\<close> is still false after the
  call, whereas a PUT answered 429 sets it.
\<close>

theorem fallback_post_429_flag_untouched:
  "updateCategoryTranslation (\<lambda>b. b) example_api (JNum 1) ''en'' ''{}''
     (example_world (Inl (new_Error ''unused''))
        (Inr (plain_response 404 ''Not Found''))
        (Inr (plain_response 429 ''Too Many Requests'')))
   = (Promise (Inl \<lparr>message = ''response Too Many Requests'', code = JNum 429,
                    retryAfter = JNull\<rparr>),
      example_api,
      \<lparr>network = by_method (Inl (new_Error ''unused''))
                   (Inr (plain_response 404 ''Not Found''))
                   (Inr (plain_response 429 ''Too Many Requests'')),
       sent = [\<lparr>req_url = ''https://example.freshdesk.com/api/v2/solutions/categories/1/en'',
                req_method = PUT, req_body = Some ''{}'',
                req_headers = [(''Content-Type'', ''application/json''),
                               (''Authorization'', ''Basic YWJjOlg='')]\<rparr>,
               \<lparr>req_url = ''https://example.freshdesk.com/api/v2/solutions/categories/1/en'',
                req_method = POST, req_body = Some ''{}'',
                req_headers = [(''Content-Type'', ''application/json''),
                               (''Authorization'', ''Basic YWJjOlg='')]\<rparr>],
       stdout = []\<rparr>)
   \<and> \<not> rateLimited example_api"
  using outcome_plain_response_error [of 404 "''Not Found''"]
    outcome_plain_response_error [of 429 "''Too Many Requests''"]
  by (simp add: updateCategoryTranslation_def fetch_def example_world_def by_method_def
      example_api_def outcome_def show_id_1)

text \<open>
  C4. For the same reason a failure of the fallback POST is rejected to the caller
  without a diagnostic line: with the PUT answered 404 and the POST answered 500, the
  upsert rejects with the error of code 500 and standard output stays empty, whereas a
  failing PUT of any code other than 404 is logged before it is re-raised.
\<close>

theorem fallback_post_failure_not_logged:
  "updateArticleTranslation (\<lambda>b. b) example_api (JNum 42) ''fr'' ''{}''
     (example_world (Inl (new_Error ''unused''))
        (Inr (plain_response 404 ''Not Found''))
        (Inr (plain_response 500 ''Internal Server Error'')))
   = (Promise (Inl \<lparr>message = ''response Internal Server Error'', code = JNum 500,
                    retryAfter = JUndefined\<rparr>),
      example_api,
      \<lparr>network = by_method (Inl (new_Error ''unused''))
                   (Inr (plain_response 404 ''Not Found''))
                   (Inr (plain_response 500 ''Internal Server Error'')),
       sent = [\<lparr>req_url = ''https://example.freshdesk.com/api/v2/solutions/articles/42/fr'',
                req_method = PUT, req_body = Some ''{}'',
                req_headers = [(''Content-Type'', ''application/json''),
                               (''Authorization'', ''Basic YWJjOlg='')]\<rparr>,
               \<lparr>req_url = ''https://example.freshdesk.com/api/v2/solutions/articles/42/fr'',
                req_method = POST, req_body = Some ''{}'',
                req_headers = [(''Content-Type'', ''application/json''),
                               (''Authorization'', ''Basic YWJjOlg='')]\<rparr>],
       stdout = []\<rparr>)"
  using outcome_plain_response_error [of 404 "''Not Found''"]
    outcome_plain_response_error [of 500 "''Internal Server Error''"]
  by (simp add: updateArticleTranslation_def fetch_def example_world_def by_method_def
      example_api_def outcome_def show_id_42)

end
